theory Spec2Isabelle
  imports Main
begin

section \<open>JavaScript values used by the pose workflow\<close>

text \<open>
  Strings are lists of 8-bit characters, so a string of the model is a JavaScript string
  whose code units are all below 256. A thrown value is either an \<open>Error\<close> object with its
  message or some other value; the handlers read it through
  \<^verbatim>\<open>err instanceof Error ? err.message : "An unknown error occurred."\<close>.
\<close>

datatype thrown = Error string | NonError

fun err_message :: "thrown \<Rightarrow> string" where
  "err_message (Error m) = m"
| "err_message NonError = ''An unknown error occurred.''"

text \<open>
  The white space and line terminators that \<^verbatim>\<open>String.prototype.trim\<close> strips, among the
  code units below 256: TAB, LF, VT, FF, CR, SPACE and NBSP.
\<close>

definition is_js_space :: "char \<Rightarrow> bool" where
  "is_js_space c = (of_char c \<in> {9::nat, 10, 11, 12, 13, 32, 160})"

definition trim :: "string \<Rightarrow> string" where
  "trim s = rev (dropWhile is_js_space (rev (dropWhile is_js_space s)))"

text \<open>\<^verbatim>\<open>s.includes(sub)\<close>: \<open>sub\<close> occurs in \<open>s\<close> as a contiguous run.\<close>

fun str_includes :: "string \<Rightarrow> string \<Rightarrow> bool" where
  "str_includes [] sub = (sub = [])"
| "str_includes (c # cs) sub = (take (length sub) (c # cs) = sub \<or> str_includes cs sub)"

text \<open>
  The em dash (U+2014) of two user-facing messages is not an 8-bit character; it stands
  here as the three bytes of its UTF-8 encoding. No operation of the code inspects these
  messages.
\<close>

definition em_dash :: string where
  "em_dash = [CHR 0xE2, CHR 0x80, CHR 0x94]"

text \<open>The decimal numeral a template literal prints for a non-negative integer.\<close>

definition digit_char :: "nat \<Rightarrow> char" where
  "digit_char d = char_of (48 + d)"

function show_nat :: "nat \<Rightarrow> string" where
  "show_nat n = (if n < 10 then [digit_char n] else show_nat (n div 10) @ [digit_char (n mod 10)])"
  by pat_completeness auto
termination
  by (relation "measure (\<lambda>n. n)") auto

declare show_nat.simps [simp del]

section \<open>The state of the App component (src/App.tsx)\<close>

text \<open>
  \<open>File\<close> is the browser's file object, of which the code reads the bytes (through
  \<open>fileToBase64\<close>) and the \<open>type\<close>. \<open>ImagePayload\<close> is the shape
  \<^verbatim>\<open>{data, mimeType}\<close> of both \<open>StoredBaseImage\<close> and the service's \<open>ImagePayload\<close>.
\<close>

record File =
  file_bytes :: string
  file_type :: string

record ImageFile =
  imgFile :: File
  preview :: string

record ImagePayload =
  data :: string
  mimeType :: string

datatype pose_mode = TextMode | ImageMode

text \<open>
  One field per \<open>useState\<close>/\<open>useLocalStorage\<close> cell of the component, and the two
  values returned by \<open>useDebounce\<close>.
\<close>

record app_state =
  baseImage :: "ImagePayload option"
  poseImage :: "ImageFile option"
  prompt :: string
  poseSourceMode :: "pose_mode option"
  poseDescription :: string
  isPreviewLoading :: bool
  showDescriptionEditor :: bool
  generatedImage :: "string option"
  isLoading :: bool
  error :: "string option"
  debouncedPrompt :: string
  debouncedPoseImage :: "ImageFile option"

definition initial_state :: app_state where
  "initial_state =
     \<lparr>baseImage = None, poseImage = None, prompt = [], poseSourceMode = None,
      poseDescription = [], isPreviewLoading = False, showDescriptionEditor = False,
      generatedImage = None, isLoading = False, error = None,
      debouncedPrompt = [], debouncedPoseImage = None\<rparr>"

text \<open>
  Modelled from the spec: the hook \<open>hooks/useDebounce\<close> is not among the sources. After the
  quiescence window of 500 ms the debounced values take the current ones.
\<close>

definition useDebounce_settle :: "app_state \<Rightarrow> app_state" where
  "useDebounce_settle s = s\<lparr>debouncedPrompt := prompt s, debouncedPoseImage := poseImage s\<rparr>"

section \<open>The event handlers\<close>

text \<open>The \<open>onChange\<close> handlers of the two text areas.\<close>

definition prompt_onChange :: "string \<Rightarrow> app_state \<Rightarrow> app_state" where
  "prompt_onChange v s = s\<lparr>prompt := v\<rparr>"

definition poseDescription_onChange :: "string \<Rightarrow> app_state \<Rightarrow> app_state" where
  "poseDescription_onChange v s = s\<lparr>poseDescription := v\<rparr>"

text \<open>\<open>handleDeleteBaseImage\<close>; the first argument is the answer of \<open>window.confirm\<close>.\<close>

definition handleDeleteBaseImage :: "bool \<Rightarrow> app_state \<Rightarrow> app_state" where
  "handleDeleteBaseImage confirmed s =
     (if confirmed then
        s\<lparr>baseImage := None, poseImage := None, prompt := [], generatedImage := None,
          error := None, poseSourceMode := None, showDescriptionEditor := False\<rparr>
      else s)"

text \<open>
  \<open>handlePoseImageUpload\<close>; \<open>url\<close> is the handle that \<open>URL.createObjectURL(file)\<close>
  returns.
\<close>

definition handlePoseImageUpload :: "string \<Rightarrow> File \<Rightarrow> app_state \<Rightarrow> app_state" where
  "handlePoseImageUpload url f s =
     s\<lparr>poseImage := Some \<lparr>imgFile = f, preview = url\<rparr>, prompt := []\<rparr>"

definition handleTryNewPose :: "app_state \<Rightarrow> app_state" where
  "handleTryNewPose s =
     s\<lparr>generatedImage := None, poseImage := None, prompt := [], error := None,
       poseSourceMode := None, showDescriptionEditor := False, poseDescription := []\<rparr>"

definition handlePoseSourceChange :: "pose_mode \<Rightarrow> app_state \<Rightarrow> app_state" where
  "handlePoseSourceChange m s =
     s\<lparr>poseSourceMode := Some m, error := None, poseImage := None, prompt := [],
       showDescriptionEditor := False, poseDescription := []\<rparr>"

section \<open>The effect that previews the pose description\<close>

text \<open>
  The effect runs \<open>getPoseDescription\<close> up to its first \<open>await\<close> and leaves at most one
  operation in flight. A pending operation records the value that started it.
\<close>

datatype pending =
    AwaitDescribeText string
  | AwaitFileToBase64 ImageFile
  | AwaitDescribeImage ImagePayload

definition getPoseDescription :: "app_state \<Rightarrow> app_state \<times> pending option" where
  "getPoseDescription s =
     (if poseSourceMode s = Some TextMode \<and> trim (debouncedPrompt s) \<noteq> [] then
        (s\<lparr>isPreviewLoading := True, error := None\<rparr>,
         Some (AwaitDescribeText (debouncedPrompt s)))
      else
        (case (poseSourceMode s, debouncedPoseImage s) of
           (Some ImageMode, Some img) \<Rightarrow>
             (s\<lparr>isPreviewLoading := True, error := None\<rparr>, Some (AwaitFileToBase64 img))
         | _ \<Rightarrow> (s\<lparr>showDescriptionEditor := False, poseDescription := []\<rparr>, None)))"

definition useEffect_pose :: "app_state \<Rightarrow> app_state \<times> pending option" where
  "useEffect_pose s =
     (case poseSourceMode s of None \<Rightarrow> (s, None) | Some _ \<Rightarrow> getPoseDescription s)"

text \<open>
  The continuation of \<open>getPoseDescription\<close> when the awaited operation settles: \<open>Inr\<close> is
  the value it resolves to, \<open>Inl\<close> what it rejects with. The \<open>finally\<close> block runs on both
  paths. The state is the component's state at that moment.
\<close>

fun resume :: "pending \<Rightarrow> thrown + string \<Rightarrow> app_state \<Rightarrow> app_state \<times> pending option" where
  "resume (AwaitDescribeText p) (Inr description) s =
     (s\<lparr>poseDescription := description, showDescriptionEditor := True,
        isPreviewLoading := False\<rparr>, None)"
| "resume (AwaitDescribeText p) (Inl err) s =
     (s\<lparr>error := Some (''Could not generate pose description: '' @ err_message err),
        showDescriptionEditor := False, isPreviewLoading := False\<rparr>, None)"
| "resume (AwaitFileToBase64 img) (Inr b64) s =
     (s, Some (AwaitDescribeImage \<lparr>data = b64, mimeType = file_type (imgFile img)\<rparr>))"
| "resume (AwaitFileToBase64 img) (Inl err) s =
     (s\<lparr>error := Some (''Could not generate pose description from image: '' @ err_message err),
        showDescriptionEditor := False, isPreviewLoading := False\<rparr>, None)"
| "resume (AwaitDescribeImage p) (Inr description) s =
     (s\<lparr>poseDescription := description, showDescriptionEditor := True,
        isPreviewLoading := False\<rparr>, None)"
| "resume (AwaitDescribeImage p) (Inl err) s =
     (s\<lparr>error := Some (''Could not generate pose description from image: '' @ err_message err),
        showDescriptionEditor := False, isPreviewLoading := False\<rparr>, None)"

section \<open>Generation: \<open>handleGenerate\<close> and its retry loop\<close>

text \<open>
  The argument object of \<open>generatePose\<close>. The cast \<^verbatim>\<open>poseSourceMode as 'text' | 'image'\<close>
  checks nothing at run time, so the mode may still be \<open>null\<close>.
\<close>

record GenerateOptions =
  opt_mode :: "pose_mode option"
  opt_poseImage :: "ImagePayload option"
  opt_poseDescription :: string

text \<open>
  The two asynchronous operations an attempt awaits. Each is given the loop counter \<open>i\<close>
  of the attempt that calls it, so that its outcome may differ from one attempt to the
  next; \<open>Inl\<close> is a rejection.
\<close>

record capabilities =
  fileToBase64 :: "nat \<Rightarrow> File \<Rightarrow> thrown + string"
  generatePose :: "nat \<Rightarrow> ImagePayload \<Rightarrow> GenerateOptions \<Rightarrow> thrown + string"

type_synonym render_call = "ImagePayload \<times> GenerateOptions"

text \<open>
  The expression that computes \<open>poseImagePayload\<close> in attempt \<open>i\<close>, for the values
  \<open>c\<close> the callback closed over; it rejects when \<open>fileToBase64\<close> does.
\<close>

definition poseImagePayload :: "capabilities \<Rightarrow> app_state \<Rightarrow> nat \<Rightarrow> thrown + ImagePayload option" where
  "poseImagePayload E c i =
     (case (poseSourceMode c, poseImage c) of
        (Some ImageMode, Some img) \<Rightarrow>
          (case fileToBase64 E i (imgFile img) of
             Inl err \<Rightarrow> Inl err
           | Inr b64 \<Rightarrow> Inr (Some \<lparr>data = b64, mimeType = file_type (imgFile img)\<rparr>))
      | _ \<Rightarrow> Inr None)"

text \<open>The object literal passed to \<open>generatePose\<close>.\<close>

definition generate_options :: "app_state \<Rightarrow> ImagePayload option \<Rightarrow> GenerateOptions" where
  "generate_options c payload =
     \<lparr>opt_mode = poseSourceMode c, opt_poseImage = payload,
      opt_poseDescription = poseDescription c\<rparr>"

text \<open>
  The \<open>try\<close> block of attempt \<open>i\<close>: the outcome, and the calls of \<open>generatePose\<close> it
  made. A rejected \<open>fileToBase64\<close> leaves the block before \<open>generatePose\<close> is called.
\<close>

definition try_block :: "capabilities \<Rightarrow> app_state \<Rightarrow> ImagePayload \<Rightarrow> nat \<Rightarrow>
    (thrown + string) \<times> render_call list" where
  "try_block E c b i =
     (case poseImagePayload E c i of
        Inl err \<Rightarrow> (Inl err, [])
      | Inr payload \<Rightarrow>
          (generatePose E i b (generate_options c payload), [(b, generate_options c payload)]))"

text \<open>
  The \<open>catch\<close> block of attempt \<open>i\<close>: the new state, and whether the loop is left by
  \<open>break\<close>.
\<close>

definition catch_block :: "nat \<Rightarrow> thrown \<Rightarrow> app_state \<Rightarrow> app_state \<times> bool" where
  "catch_block i err s =
     (let errorMessage = err_message err in
      if str_includes errorMessage ''Requested entity was not found.'' then
        (s\<lparr>error := Some ''Your API key seems to be invalid. Please double-check the key in services/geminiService.ts.''\<rparr>, True)
      else if str_includes errorMessage ''POSE_DETECTION_FAILED'' then
        (s\<lparr>error := Some (''Pose not detected clearly '' @ em_dash @ '' try a clearer or single-person image.'')\<rparr>, True)
      else if str_includes errorMessage ''MULTIPLE_PEOPLE_DETECTED'' then
        (s\<lparr>error := Some (''Multiple people detected '' @ em_dash @ '' please crop to one person for best accuracy.'')\<rparr>, True)
      else
        (s\<lparr>error := Some (''Failed to generate image (attempt '' @ show_nat (i + 1) @ ''). '' @ errorMessage)\<rparr>,
         False))"

text \<open>
  \<^verbatim>\<open>for (let i = 0; i < 3 && !success; i++)\<close>, with the calls of \<open>generatePose\<close> made so
  far.
\<close>

function attempt_loop :: "capabilities \<Rightarrow> app_state \<Rightarrow> ImagePayload \<Rightarrow> nat \<Rightarrow> bool \<Rightarrow>
    app_state \<Rightarrow> render_call list \<Rightarrow> app_state \<times> render_call list" where
  "attempt_loop E c b i success s calls =
     (if i < 3 \<and> \<not> success then
        (case try_block E c b i of
           (Inr result, made) \<Rightarrow>
             attempt_loop E c b (Suc i) True
               (s\<lparr>generatedImage := Some (''data:image/png;base64,'' @ result)\<rparr>) (calls @ made)
         | (Inl err, made) \<Rightarrow>
             (case catch_block i err s of
                (s', True) \<Rightarrow> (s', calls @ made)
              | (s', False) \<Rightarrow> attempt_loop E c b (Suc i) success s' (calls @ made)))
      else (s, calls))"
  by pat_completeness auto
termination
  by (relation "measure (\<lambda>(E, c, b, i, success, s, calls). 3 - i)") auto

declare attempt_loop.simps [simp del]

definition handleGenerate :: "capabilities \<Rightarrow> app_state \<Rightarrow> app_state \<times> render_call list" where
  "handleGenerate E s =
     (case baseImage s of
        None \<Rightarrow> (s, [])
      | Some b \<Rightarrow>
          if poseDescription s = [] then (s, [])
          else
            (case attempt_loop E s b 0 False
                    (s\<lparr>isLoading := True, error := None, generatedImage := None\<rparr>) [] of
               (s', calls) \<Rightarrow> (s'\<lparr>isLoading := False\<rparr>, calls)))"

section \<open>The describe operation (src/services/geminiService.ts)\<close>

text \<open>
  A \<open>Part\<close> of a request is inline data (\<open>mimeType\<close>, \<open>data\<close>) or text. The environment
  of the service is the variable \<open>process.env.API_KEY\<close>, the remote call
  \<open>ai.models.generateContent\<close> (given the model name and the parts; the \<open>text\<close> of its
  response may be \<open>undefined\<close>), and the message of the \<open>TypeError\<close> the engine throws when
  \<open>trim\<close> is read from \<open>undefined\<close>.
\<close>

datatype part = InlineData string string | TextPart string

record gemini_env =
  API_KEY :: "string option"
  generateContent :: "string \<Rightarrow> part list \<Rightarrow> thrown + string option"
  typeErrorMessage :: string

type_synonym content_call = "string \<times> part list"

definition describe_image_prompt :: string where
  "describe_image_prompt =
     ''Analyze the provided image and describe the person'' @ [CHR 0x27] @
     ''s pose in a concise, neutral sentence. Focus only on the body'' @ [CHR 0x27] @
     ''s position, not the character or style. Example: '' @ [CHR 0x27] @
     ''A person standing with arms crossed.'' @ [CHR 0x27]"

definition describe_text_prompt :: "string \<Rightarrow> string" where
  "describe_text_prompt t =
     ''Based on the following user input, describe the character'' @ [CHR 0x27] @
     ''s pose in a concise, neutral sentence. Example: '' @ [CHR 0x27] @
     ''A character is doing push-ups, seen from the side.'' @ [CHR 0x27] @
     [CHR 0x0A, CHR 0x0A] @ ''User Input: '' @ [CHR 0x22] @ t @ [CHR 0x22]"

text \<open>
  \<open>getAiClient\<close> throws when \<open>process.env.API_KEY\<close> is falsy: undefined or the empty
  string.
\<close>

definition getAiClient :: "gemini_env \<Rightarrow> thrown + unit" where
  "getAiClient G =
     (case API_KEY G of
        None \<Rightarrow> Inl (Error ''API_KEY environment variable not set.'')
      | Some k \<Rightarrow>
          if k = [] then Inl (Error ''API_KEY environment variable not set.'') else Inr ())"

text \<open>
  The parts that \<open>generatePoseDescription\<close> builds. An object is truthy, a string is
  truthy when it is not empty.
\<close>

definition describe_parts :: "ImagePayload option \<Rightarrow> string option \<Rightarrow> thrown + part list" where
  "describe_parts image' text' =
     (case image' of
        Some img \<Rightarrow> Inr [InlineData (mimeType img) (data img), TextPart describe_image_prompt]
      | None \<Rightarrow>
          (case text' of
             Some t \<Rightarrow>
               if t \<noteq> [] then Inr [TextPart (describe_text_prompt t)]
               else Inl (Error ''Either an image or text must be provided for description.'')
           | None \<Rightarrow> Inl (Error ''Either an image or text must be provided for description.'')))"

text \<open>The outcome of \<open>generatePoseDescription\<close>, and the requests it submitted.\<close>

definition generatePoseDescription :: "gemini_env \<Rightarrow> ImagePayload option \<Rightarrow> string option \<Rightarrow>
    (thrown + string) \<times> content_call list" where
  "generatePoseDescription G image' text' =
     (case getAiClient G of
        Inl err \<Rightarrow> (Inl err, [])
      | Inr _ \<Rightarrow>
          (case describe_parts image' text' of
             Inl err \<Rightarrow> (Inl err, [])
           | Inr parts \<Rightarrow>
               (case generateContent G ''gemini-2.5-flash'' parts of
                  Inl err \<Rightarrow> (Inl err, [(''gemini-2.5-flash'', parts)])
                | Inr None \<Rightarrow>
                    (Inl (Error (typeErrorMessage G)), [(''gemini-2.5-flash'', parts)])
                | Inr (Some response_text) \<Rightarrow>
                    (Inr (trim response_text), [(''gemini-2.5-flash'', parts)]))))"

section \<open>Vocabulary of the properties, and concrete inputs\<close>

text \<open>
  A message carries a fatal signal when one of the three texts tested by the \<open>catch\<close>
  block occurs in it.
\<close>

definition fatal_signal :: "string \<Rightarrow> bool" where
  "fatal_signal m =
     (str_includes m ''Requested entity was not found.'' \<or>
      str_includes m ''POSE_DETECTION_FAILED'' \<or>
      str_includes m ''MULTIPLE_PEOPLE_DETECTED'')"

definition ex_base :: ImagePayload where
  "ex_base = \<lparr>data = ''UkVY'', mimeType = ''image/png''\<rparr>"

text \<open>A stored identity, text mode chosen, nothing typed yet.\<close>

definition ex_text_chosen :: app_state where
  "ex_text_chosen = handlePoseSourceChange TextMode (initial_state\<lparr>baseImage := Some ex_base\<rparr>)"

text \<open>
  A run in which the prompt is typed as \<open>wave\<close>, the debounce settles and the effect
  submits it; the prompt is then changed to \<open>sit\<close>, the debounce settles and the effect
  submits that; the call for \<open>sit\<close> resolves first and the call for \<open>wave\<close> last.
\<close>

definition run_wave_submitted :: "app_state \<times> pending option" where
  "run_wave_submitted = useEffect_pose (useDebounce_settle (prompt_onChange ''wave'' ex_text_chosen))"

definition run_sit_submitted :: "app_state \<times> pending option" where
  "run_sit_submitted =
     useEffect_pose (useDebounce_settle (prompt_onChange ''sit'' (fst run_wave_submitted)))"

definition run_sit_resolved :: app_state where
  "run_sit_resolved =
     fst (resume (AwaitDescribeText ''sit'') (Inr ''A person sitting.'') (fst run_sit_submitted))"

definition run_wave_resolved :: app_state where
  "run_wave_resolved =
     fst (resume (AwaitDescribeText ''wave'') (Inr ''A person waving.'') run_sit_resolved)"

text \<open>A state in which a description is ready, after an earlier result and error.\<close>

definition ex_ready :: app_state where
  "ex_ready =
     \<lparr>baseImage = Some ex_base, poseImage = None, prompt = ''wave'',
      poseSourceMode = Some TextMode, poseDescription = ''A person waving.'',
      isPreviewLoading = False, showDescriptionEditor = True,
      generatedImage = Some ''data:image/png;base64,AAAA'', isLoading = False,
      error = Some ''Failed to generate image (attempt 3). timeout'',
      debouncedPrompt = ''wave'', debouncedPoseImage = None\<rparr>"

text \<open>The same state with the description edited to two spaces.\<close>

definition ex_blank_description :: app_state where
  "ex_blank_description = poseDescription_onChange ''  '' ex_ready"

text \<open>Text mode with a debounced prompt of a space, a tab and a line feed.\<close>

definition ex_blank_prompt :: app_state where
  "ex_blank_prompt =
     useDebounce_settle (prompt_onChange [CHR 0x20, CHR 0x09, CHR 0x0A] ex_text_chosen)"

text \<open>Render capabilities: failing twice, rejecting a pose, always succeeding.\<close>

definition caps_third_time :: capabilities where
  "caps_third_time =
     \<lparr>fileToBase64 = (\<lambda>i f. Inr (file_bytes f)),
      generatePose = (\<lambda>i b opts. if i < 2 then Inl (Error ''503 Service Unavailable'')
                                    else Inr ''iVBORw0KGgo='')\<rparr>"

definition caps_pose_failed :: capabilities where
  "caps_pose_failed =
     \<lparr>fileToBase64 = (\<lambda>i f. Inr (file_bytes f)),
      generatePose = (\<lambda>i b opts. Inl (Error ''POSE_DETECTION_FAILED: The model could not detect a clear pose in the reference image.''))\<rparr>"

definition caps_ok :: capabilities where
  "caps_ok =
     \<lparr>fileToBase64 = (\<lambda>i f. Inr (file_bytes f)),
      generatePose = (\<lambda>i b opts. Inr ''iVBORw0KGgo='')\<rparr>"

text \<open>A configured service whose model answers with one sentence.\<close>

definition ex_gemini :: gemini_env where
  "ex_gemini =
     \<lparr>API_KEY = Some ''key'',
      generateContent = (\<lambda>model parts. Inr (Some '' A person standing. '')),
      typeErrorMessage = ''Cannot read properties of undefined''\<rparr>"

section \<open>Facts about the string operations and the retry loop\<close>

lemma str_includes_iff: "str_includes s sub \<longleftrightarrow> (\<exists>ps ss. s = ps @ sub @ ss)"
proof (induction s)
  case Nil
  then show ?case by auto
next
  case (Cons c cs)
  show ?case
  proof
    assume "str_includes (c # cs) sub"
    then consider "take (length sub) (c # cs) = sub" | "str_includes cs sub" by auto
    then show "\<exists>ps ss. c # cs = ps @ sub @ ss"
    proof cases
      case 1
      have "c # cs = take (length sub) (c # cs) @ drop (length sub) (c # cs)"
        by (rule append_take_drop_id [symmetric])
      with 1 have "c # cs = [] @ sub @ drop (length sub) (c # cs)"
        by (simp only: append_Nil)
      then show ?thesis by blast
    next
      case 2
      then obtain ps ss where "cs = ps @ sub @ ss" using Cons.IH by blast
      then have "c # cs = (c # ps) @ sub @ ss" by simp
      then show ?thesis by blast
    qed
  next
    assume "\<exists>ps ss. c # cs = ps @ sub @ ss"
    then obtain ps ss where eq: "c # cs = ps @ sub @ ss" by blast
    show "str_includes (c # cs) sub"
    proof (cases ps)
      case Nil
      have "take (length sub) (sub @ ss) = sub" by simp
      with eq Nil have "take (length sub) (c # cs) = sub" by (simp only: append_Nil)
      then show ?thesis by (simp only: str_includes.simps simp_thms)
    next
      case (Cons p ps')
      with eq have "cs = ps' @ sub @ ss" by simp
      then have "str_includes cs sub" using Cons.IH by blast
      then show ?thesis by (simp only: str_includes.simps simp_thms)
    qed
  qed
qed

lemma str_includes_middle: "str_includes (a @ b @ c) b"
  unfolding str_includes_iff by blast

lemma dropWhile_space_Nil: "dropWhile is_js_space s = [] \<longleftrightarrow> (\<forall>c\<in>set s. is_js_space c)"
  by (induction s) auto

lemma trim_blank_iff: "trim s = [] \<longleftrightarrow> (\<forall>c\<in>set s. is_js_space c)"
proof
  assume blank: "trim s = []"
  show "\<forall>c\<in>set s. is_js_space c"
  proof (rule ccontr)
    assume "\<not> (\<forall>c\<in>set s. is_js_space c)"
    then have ne: "dropWhile is_js_space s \<noteq> []"
      by (simp only: dropWhile_space_Nil not_False_eq_True)
    then have "\<not> is_js_space (hd (dropWhile is_js_space s))"
      by (rule hd_dropWhile)
    moreover have "hd (dropWhile is_js_space s) \<in> set (rev (dropWhile is_js_space s))"
      using ne by simp
    ultimately have "\<not> (\<forall>c\<in>set (rev (dropWhile is_js_space s)). is_js_space c)"
      by blast
    then have "dropWhile is_js_space (rev (dropWhile is_js_space s)) \<noteq> []"
      by (simp only: dropWhile_space_Nil not_False_eq_True)
    then show False using blank by (simp add: trim_def)
  qed
next
  assume "\<forall>c\<in>set s. is_js_space c"
  then have "dropWhile is_js_space s = []" by (simp only: dropWhile_space_Nil)
  then show "trim s = []" by (simp only: trim_def rev.simps dropWhile.simps)
qed

text \<open>An attempt calls \<open>generatePose\<close> at most once, so a run calls it at most three times.\<close>

lemma try_block_calls: "length (snd (try_block E c b i)) \<le> 1"
  by (simp add: try_block_def split: sum.splits)

lemma attempt_loop_calls_bound:
  "length (snd (attempt_loop E c b i success s calls)) \<le> length calls + (3 - i)"
proof (induction E c b i success s calls rule: attempt_loop.induct)
  case (1 E c b i success s calls)
  show ?case
  proof (cases "i < 3 \<and> \<not> success")
    case False
    then show ?thesis by (subst attempt_loop.simps) auto
  next
    case running: True
    then have i3: "i < 3" by simp
    obtain r made where tb: "try_block E c b i = (r, made)"
      by (cases "try_block E c b i")
    have m1: "length made \<le> 1"
      using try_block_calls [of E c b i] tb by simp
    show ?thesis
    proof (cases r)
      case (Inr result)
      have "length (snd (attempt_loop E c b (Suc i) True
               (s\<lparr>generatedImage := Some (''data:image/png;base64,'' @ result)\<rparr>) (calls @ made)))
            \<le> length (calls @ made) + (3 - Suc i)"
        by (rule "1.IH"(2) [OF running tb [symmetric] Inr])
      moreover have "attempt_loop E c b i success s calls =
          attempt_loop E c b (Suc i) True
               (s\<lparr>generatedImage := Some (''data:image/png;base64,'' @ result)\<rparr>) (calls @ made)"
        using running tb Inr by (subst attempt_loop.simps) simp
      ultimately show ?thesis using m1 i3 by simp
    next
      case (Inl err)
      obtain s' brk where cb: "catch_block i err s = (s', brk)"
        by (cases "catch_block i err s")
      show ?thesis
      proof (cases brk)
        case True
        have "attempt_loop E c b i success s calls = (s', calls @ made)"
          using running tb Inl cb True by (subst attempt_loop.simps) simp
        then show ?thesis using m1 i3 by simp
      next
        case False
        have "length (snd (attempt_loop E c b (Suc i) success s' (calls @ made)))
            \<le> length (calls @ made) + (3 - Suc i)"
          using False by (intro "1.IH"(1) [OF running tb [symmetric] Inl cb [symmetric]]) simp
        moreover have "attempt_loop E c b i success s calls =
            attempt_loop E c b (Suc i) success s' (calls @ made)"
          using running tb Inl cb False by (subst attempt_loop.simps) simp
        ultimately show ?thesis using m1 i3 by simp
      qed
    qed
  qed
qed

lemma handleGenerate_calls_bound: "length (snd (handleGenerate E s)) \<le> 3"
proof (cases "baseImage s")
  case None
  then show ?thesis by (simp add: handleGenerate_def)
next
  case (Some b)
  show ?thesis
  proof (cases "poseDescription s = []")
    case True
    then show ?thesis using Some by (simp add: handleGenerate_def)
  next
    case False
    obtain s' calls where lp: "attempt_loop E s b 0 False
             (s\<lparr>isLoading := True, error := None, generatedImage := None\<rparr>) [] = (s', calls)"
      by (cases "attempt_loop E s b 0 False
             (s\<lparr>isLoading := True, error := None, generatedImage := None\<rparr>) []")
    have "length calls \<le> 3"
      using attempt_loop_calls_bound [of E s b 0 False
          "s\<lparr>isLoading := True, error := None, generatedImage := None\<rparr>" "[]"] lp
      by simp
    then show ?thesis using Some False lp
      by (simp add: handleGenerate_def)
  qed
qed

text \<open>One turn of the loop, by the outcome of its attempt.\<close>

lemma attempt_loop_stop: "attempt_loop E c b i True s calls = (s, calls)"
  by (subst attempt_loop.simps) simp

lemma attempt_loop_exhausted: "attempt_loop E c b 3 success s calls = (s, calls)"
  by (subst attempt_loop.simps) simp

lemma try_block_call:
  "poseImagePayload E c i = Inr payload \<Longrightarrow>
   try_block E c b i = (generatePose E i b (generate_options c payload), [(b, generate_options c payload)])"
  by (simp add: try_block_def)

lemma catch_block_break: "snd (catch_block i err s) = fatal_signal (err_message err)"
  by (simp add: catch_block_def fatal_signal_def Let_def)

lemma catch_block_transient:
  "\<not> fatal_signal (err_message err) \<Longrightarrow>
   catch_block i err s =
     (s\<lparr>error := Some (''Failed to generate image (attempt '' @ show_nat (i + 1) @ ''). '' @ err_message err)\<rparr>, False)"
  by (simp add: catch_block_def fatal_signal_def Let_def)

lemma attempt_loop_success:
  assumes "i < 3" "poseImagePayload E c i = Inr payload"
    and "generatePose E i b (generate_options c payload) = Inr result"
  shows "attempt_loop E c b i False s calls =
     (s\<lparr>generatedImage := Some (''data:image/png;base64,'' @ result)\<rparr>,
      calls @ [(b, generate_options c payload)])"
  using assms
  by (subst attempt_loop.simps) (simp add: try_block_call attempt_loop_stop)

lemma attempt_loop_transient:
  assumes "i < 3" "poseImagePayload E c i = Inr payload"
    and "generatePose E i b (generate_options c payload) = Inl err"
    and "\<not> fatal_signal (err_message err)"
  shows "attempt_loop E c b i False s calls =
     attempt_loop E c b (Suc i) False
       (s\<lparr>error := Some (''Failed to generate image (attempt '' @ show_nat (i + 1) @ ''). '' @ err_message err)\<rparr>)
       (calls @ [(b, generate_options c payload)])"
  using assms
  by (subst attempt_loop.simps) (simp add: try_block_call catch_block_transient)

lemma attempt_loop_fatal:
  assumes "i < 3" "poseImagePayload E c i = Inr payload"
    and "generatePose E i b (generate_options c payload) = Inl err"
    and "fatal_signal (err_message err)"
  shows "attempt_loop E c b i False s calls =
     (fst (catch_block i err s), calls @ [(b, generate_options c payload)])"
proof -
  obtain s' brk where cb: "catch_block i err s = (s', brk)"
    by (cases "catch_block i err s")
  then have "brk" using catch_block_break [of i err s] assms(4) by simp
  with cb assms show ?thesis
    by (subst attempt_loop.simps) (simp add: try_block_call)
qed

lemma handleGenerate_run:
  "baseImage s = Some b \<Longrightarrow> poseDescription s \<noteq> [] \<Longrightarrow>
   handleGenerate E s =
     (fst (attempt_loop E s b 0 False
             (s\<lparr>isLoading := True, error := None, generatedImage := None\<rparr>) [])
        \<lparr>isLoading := False\<rparr>,
      snd (attempt_loop E s b 0 False
             (s\<lparr>isLoading := True, error := None, generatedImage := None\<rparr>) []))"
  by (simp add: handleGenerate_def split: prod.splits)

lemma handleGenerate_fatal:
  assumes "baseImage s = Some b" and "poseDescription s \<noteq> []"
    and "poseImagePayload E s 0 = Inr payload"
    and "generatePose E 0 b (generate_options s payload) = Inl err"
    and "fatal_signal (err_message err)"
  shows "handleGenerate E s =
     (fst (catch_block 0 err (s\<lparr>isLoading := True, error := None, generatedImage := None\<rparr>))
        \<lparr>isLoading := False\<rparr>,
      [(b, generate_options s payload)])"
proof -
  have "attempt_loop E s b 0 False (s\<lparr>isLoading := True, error := None, generatedImage := None\<rparr>) [] =
      (fst (catch_block 0 err (s\<lparr>isLoading := True, error := None, generatedImage := None\<rparr>)),
       [] @ [(b, generate_options s payload)])"
    using assms(3-5) by (intro attempt_loop_fatal) simp_all
  then show ?thesis
    using handleGenerate_run [OF assms(1,2), of E] by simp
qed

section \<open>The properties\<close>

subsection \<open>C1: a stale description result\<close>

text \<open>
  C1, as stated, fails. In the run \<open>run_wave_submitted\<close> ... \<open>run_wave_resolved\<close> a
  Describe call for the prompt \<open>wave\<close> is in flight when the prompt changes to \<open>sit\<close>,
  for which a second call is submitted. The second call resolves and its description is
  stored; then the first call resolves, and its description replaces the stored one
  although the prompt and the debounced prompt are still \<open>sit\<close>.
\<close>

theorem C1_stale_result_overwrites:
  "snd run_wave_submitted = Some (AwaitDescribeText ''wave'') \<and>
   snd run_sit_submitted = Some (AwaitDescribeText ''sit'') \<and>
   prompt run_sit_resolved = ''sit'' \<and>
   debouncedPrompt run_sit_resolved = ''sit'' \<and>
   poseDescription run_sit_resolved = ''A person sitting.'' \<and>
   prompt run_wave_resolved = ''sit'' \<and>
   debouncedPrompt run_wave_resolved = ''sit'' \<and>
   poseDescription run_wave_resolved = ''A person waving.''"
  by (simp add: run_wave_resolved_def run_sit_resolved_def run_sit_submitted_def
      run_wave_submitted_def ex_text_chosen_def initial_state_def handlePoseSourceChange_def
      prompt_onChange_def useDebounce_settle_def useEffect_pose_def getPoseDescription_def
      trim_def is_js_space_def)

text \<open>
  C1 as amended: the continuation of a Describe call compares nothing. When the call
  resolves with a description, that description becomes the pose description and the
  editor is shown, in every state and for every value that started the call; the pose
  source itself (prompt, pose image) is left as it is.
\<close>

theorem C1_resolution_is_unconditional:
  "resume (AwaitDescribeText key) (Inr description) s =
     (s\<lparr>poseDescription := description, showDescriptionEditor := True,
        isPreviewLoading := False\<rparr>, None) \<and>
   resume (AwaitDescribeImage payload) (Inr description) s =
     (s\<lparr>poseDescription := description, showDescriptionEditor := True,
        isPreviewLoading := False\<rparr>, None) \<and>
   poseDescription (fst (resume (AwaitDescribeText key) (Inr description) s)) = description \<and>
   poseDescription (fst (resume (AwaitDescribeImage payload) (Inr description) s)) = description \<and>
   prompt (fst (resume (AwaitDescribeText key) (Inr description) s)) = prompt s \<and>
   poseImage (fst (resume (AwaitDescribeImage payload) (Inr description) s)) = poseImage s"
  by simp

subsection \<open>C2: deleting the identity\<close>

text \<open>
  C2 at the state \<open>ex_ready\<close>, with the deletion confirmed: the identity, the pose image,
  the prompt, the mode, the result and the error are cleared, and the effect that follows
  returns at once because the mode is \<open>null\<close>; the pose description remains
  \<open>A person waving.\<close>, whereas \<open>handleTryNewPose\<close> empties it in the same state.
\<close>

theorem C2_delete_keeps_description:
  "fst (useEffect_pose (handleDeleteBaseImage True ex_ready)) = handleDeleteBaseImage True ex_ready \<and>
   baseImage (handleDeleteBaseImage True ex_ready) = None \<and>
   poseImage (handleDeleteBaseImage True ex_ready) = None \<and>
   prompt (handleDeleteBaseImage True ex_ready) = [] \<and>
   poseSourceMode (handleDeleteBaseImage True ex_ready) = None \<and>
   generatedImage (handleDeleteBaseImage True ex_ready) = None \<and>
   error (handleDeleteBaseImage True ex_ready) = None \<and>
   poseDescription (handleDeleteBaseImage True ex_ready) = ''A person waving.'' \<and>
   poseDescription (handleTryNewPose ex_ready) = []"
  by (simp add: handleDeleteBaseImage_def handleTryNewPose_def ex_ready_def useEffect_pose_def)

subsection \<open>C3: two transient failures, then success\<close>

text \<open>
  C3: a run of \<open>handleGenerate\<close> calls \<open>generatePose\<close> at most three times. When the
  identity is present, the description is not empty, the pose image payload is obtained in
  each attempt, and \<open>generatePose\<close> rejects in attempts 1 and 2 (loop counters 0 and 1)
  with messages carrying no fatal signal and resolves in attempt 3, then exactly three
  calls are made, one per attempt, the result of the third is stored as the generated
  image, and loading is over.
\<close>

theorem C3_third_attempt_succeeds:
  "length (snd (handleGenerate E s)) \<le> 3 \<and>
   (baseImage s = Some b \<and> poseDescription s \<noteq> [] \<and>
    poseImagePayload E s 0 = Inr p0 \<and>
    generatePose E 0 b (generate_options s p0) = Inl e0 \<and> \<not> fatal_signal (err_message e0) \<and>
    poseImagePayload E s 1 = Inr p1 \<and>
    generatePose E 1 b (generate_options s p1) = Inl e1 \<and> \<not> fatal_signal (err_message e1) \<and>
    poseImagePayload E s 2 = Inr p2 \<and>
    generatePose E 2 b (generate_options s p2) = Inr result
    \<longrightarrow>
    snd (handleGenerate E s) =
      [(b, generate_options s p0), (b, generate_options s p1), (b, generate_options s p2)] \<and>
    generatedImage (fst (handleGenerate E s)) = Some (''data:image/png;base64,'' @ result) \<and>
    isLoading (fst (handleGenerate E s)) = False)"
proof (intro conjI impI)
  show "length (snd (handleGenerate E s)) \<le> 3"
    by (rule handleGenerate_calls_bound)
next
  assume h: "baseImage s = Some b \<and> poseDescription s \<noteq> [] \<and>
    poseImagePayload E s 0 = Inr p0 \<and>
    generatePose E 0 b (generate_options s p0) = Inl e0 \<and> \<not> fatal_signal (err_message e0) \<and>
    poseImagePayload E s 1 = Inr p1 \<and>
    generatePose E 1 b (generate_options s p1) = Inl e1 \<and> \<not> fatal_signal (err_message e1) \<and>
    poseImagePayload E s 2 = Inr p2 \<and>
    generatePose E 2 b (generate_options s p2) = Inr result"
  let ?start = "s\<lparr>isLoading := True, error := None, generatedImage := None\<rparr>"
  let ?m0 = "''Failed to generate image (attempt '' @ show_nat (0 + 1) @ ''). '' @ err_message e0"
  let ?m1 = "''Failed to generate image (attempt '' @ show_nat (Suc 0 + 1) @ ''). '' @ err_message e1"
  have a0: "attempt_loop E s b 0 False ?start [] =
      attempt_loop E s b (Suc 0) False (?start\<lparr>error := Some ?m0\<rparr>) ([] @ [(b, generate_options s p0)])"
    using h by (intro attempt_loop_transient) simp_all
  have a1: "attempt_loop E s b (Suc 0) False (?start\<lparr>error := Some ?m0\<rparr>) ([] @ [(b, generate_options s p0)]) =
      attempt_loop E s b (Suc (Suc 0)) False (?start\<lparr>error := Some ?m0\<rparr>\<lparr>error := Some ?m1\<rparr>)
        (([] @ [(b, generate_options s p0)]) @ [(b, generate_options s p1)])"
    using h by (intro attempt_loop_transient) simp_all
  have a2: "attempt_loop E s b (Suc (Suc 0)) False (?start\<lparr>error := Some ?m0\<rparr>\<lparr>error := Some ?m1\<rparr>)
        (([] @ [(b, generate_options s p0)]) @ [(b, generate_options s p1)]) =
      (?start\<lparr>error := Some ?m0\<rparr>\<lparr>error := Some ?m1\<rparr>
          \<lparr>generatedImage := Some (''data:image/png;base64,'' @ result)\<rparr>,
       (([] @ [(b, generate_options s p0)]) @ [(b, generate_options s p1)]) @ [(b, generate_options s p2)])"
    using h by (intro attempt_loop_success) (simp_all add: numeral_2_eq_2)
  have loop: "attempt_loop E s b 0 False ?start [] =
      (?start\<lparr>error := Some ?m0\<rparr>\<lparr>error := Some ?m1\<rparr>
          \<lparr>generatedImage := Some (''data:image/png;base64,'' @ result)\<rparr>,
       (([] @ [(b, generate_options s p0)]) @ [(b, generate_options s p1)]) @ [(b, generate_options s p2)])"
    by (rule trans [OF a0 trans [OF a1 a2]])
  have "handleGenerate E s =
      (fst (attempt_loop E s b 0 False ?start [])\<lparr>isLoading := False\<rparr>,
       snd (attempt_loop E s b 0 False ?start []))"
    using h by (intro handleGenerate_run) simp_all
  then have run: "handleGenerate E s =
      (?start\<lparr>error := Some ?m0\<rparr>\<lparr>error := Some ?m1\<rparr>
          \<lparr>generatedImage := Some (''data:image/png;base64,'' @ result)\<rparr>\<lparr>isLoading := False\<rparr>,
       (([] @ [(b, generate_options s p0)]) @ [(b, generate_options s p1)]) @ [(b, generate_options s p2)])"
    by (simp only: loop fst_conv snd_conv)
  show "snd (handleGenerate E s) =
      [(b, generate_options s p0), (b, generate_options s p1), (b, generate_options s p2)]"
    by (simp add: run)
  show "generatedImage (fst (handleGenerate E s)) = Some (''data:image/png;base64,'' @ result)"
    by (simp add: run)
  show "isLoading (fst (handleGenerate E s)) = False"
    by (simp add: run)
qed

text \<open>
  Witness for C3: in the state \<open>ex_ready\<close>, the capability \<open>caps_third_time\<close> answers
  \<open>503 Service Unavailable\<close> twice and then an image.
\<close>

theorem C3_third_attempt_succeeds_witness:
  "baseImage ex_ready = Some ex_base \<and> poseDescription ex_ready \<noteq> [] \<and>
   generatePose caps_third_time 0 ex_base (generate_options ex_ready None) =
     Inl (Error ''503 Service Unavailable'') \<and>
   generatePose caps_third_time 1 ex_base (generate_options ex_ready None) =
     Inl (Error ''503 Service Unavailable'') \<and>
   \<not> fatal_signal (err_message (Error ''503 Service Unavailable'')) \<and>
   generatePose caps_third_time 2 ex_base (generate_options ex_ready None) = Inr ''iVBORw0KGgo='' \<and>
   length (snd (handleGenerate caps_third_time ex_ready)) = 3 \<and>
   generatedImage (fst (handleGenerate caps_third_time ex_ready)) =
     Some ''data:image/png;base64,iVBORw0KGgo='' \<and>
   isLoading (fst (handleGenerate caps_third_time ex_ready)) = False"
proof -
  have b: "baseImage ex_ready = Some ex_base" and d: "poseDescription ex_ready \<noteq> []"
    by (simp_all add: ex_ready_def)
  have p: "poseImagePayload caps_third_time ex_ready 0 = Inr None"
      "poseImagePayload caps_third_time ex_ready 1 = Inr None"
      "poseImagePayload caps_third_time ex_ready 2 = Inr None"
    by (simp_all add: poseImagePayload_def ex_ready_def)
  have g: "generatePose caps_third_time 0 ex_base (generate_options ex_ready None) =
        Inl (Error ''503 Service Unavailable'')"
      "generatePose caps_third_time 1 ex_base (generate_options ex_ready None) =
        Inl (Error ''503 Service Unavailable'')"
      "generatePose caps_third_time 2 ex_base (generate_options ex_ready None) = Inr ''iVBORw0KGgo=''"
    by (simp_all add: caps_third_time_def)
  have nf: "\<not> fatal_signal (err_message (Error ''503 Service Unavailable''))"
    by (simp add: fatal_signal_def)
  from C3_third_attempt_succeeds [of caps_third_time ex_ready ex_base None
      "Error ''503 Service Unavailable''" None "Error ''503 Service Unavailable''" None
      "''iVBORw0KGgo=''"] b d p g nf
  have "snd (handleGenerate caps_third_time ex_ready) =
      [(ex_base, generate_options ex_ready None), (ex_base, generate_options ex_ready None),
       (ex_base, generate_options ex_ready None)] \<and>
    generatedImage (fst (handleGenerate caps_third_time ex_ready)) =
      Some (''data:image/png;base64,'' @ ''iVBORw0KGgo='') \<and>
    isLoading (fst (handleGenerate caps_third_time ex_ready)) = False"
    by blast
  with b d g nf show ?thesis by simp
qed

subsection \<open>C4: a fatal error in the first attempt\<close>

text \<open>
  C4: when the identity is present, the description is not empty, and the first call of
  \<open>generatePose\<close> rejects with a message that carries a fatal signal, that call is the
  only one, no image is stored, loading is over, and the error shown is the message of
  the first signal found, in the order entity-not-found, pose detection, multiple people.
\<close>

theorem C4_fatal_first_attempt:
  assumes "baseImage s = Some b" and "poseDescription s \<noteq> []"
    and "poseImagePayload E s 0 = Inr payload"
    and "generatePose E 0 b (generate_options s payload) = Inl err"
    and "fatal_signal (err_message err)"
  shows "snd (handleGenerate E s) = [(b, generate_options s payload)] \<and>
     generatedImage (fst (handleGenerate E s)) = None \<and>
     isLoading (fst (handleGenerate E s)) = False \<and>
     error (fst (handleGenerate E s)) =
       Some (if str_includes (err_message err) ''Requested entity was not found.'' then
               ''Your API key seems to be invalid. Please double-check the key in services/geminiService.ts.''
             else if str_includes (err_message err) ''POSE_DETECTION_FAILED'' then
               ''Pose not detected clearly '' @ em_dash @ '' try a clearer or single-person image.''
             else
               ''Multiple people detected '' @ em_dash @ '' please crop to one person for best accuracy.'')"
  using assms(5)
  by (auto simp add: handleGenerate_fatal [OF assms] catch_block_def fatal_signal_def Let_def)

text \<open>
  Witness for C4: in the state \<open>ex_ready\<close>, the capability \<open>caps_pose_failed\<close> rejects
  with \<open>POSE_DETECTION_FAILED\<close>; one call is made and the pose-detection message is shown.
\<close>

theorem C4_fatal_first_attempt_witness:
  "generatePose caps_pose_failed 0 ex_base (generate_options ex_ready None) =
     Inl (Error ''POSE_DETECTION_FAILED: The model could not detect a clear pose in the reference image.'') \<and>
   length (snd (handleGenerate caps_pose_failed ex_ready)) = 1 \<and>
   generatedImage (fst (handleGenerate caps_pose_failed ex_ready)) = None \<and>
   error (fst (handleGenerate caps_pose_failed ex_ready)) =
     Some (''Pose not detected clearly '' @ em_dash @ '' try a clearer or single-person image.'')"
proof -
  let ?m = "''POSE_DETECTION_FAILED: The model could not detect a clear pose in the reference image.''"
  have b: "baseImage ex_ready = Some ex_base" and d: "poseDescription ex_ready \<noteq> []"
    by (simp_all add: ex_ready_def)
  have p: "poseImagePayload caps_pose_failed ex_ready 0 = Inr None"
    by (simp add: poseImagePayload_def ex_ready_def)
  have g: "generatePose caps_pose_failed 0 ex_base (generate_options ex_ready None) = Inl (Error ?m)"
    by (simp add: caps_pose_failed_def)
  have i1: "\<not> str_includes ?m ''Requested entity was not found.''"
    by simp
  have i2: "str_includes ?m ''POSE_DETECTION_FAILED''"
    by simp
  have f: "fatal_signal (err_message (Error ?m))"
    using i2 by (simp only: fatal_signal_def err_message.simps simp_thms)
  show ?thesis
    using C4_fatal_first_attempt [OF b d p g f] g i1 i2
    by (simp only: err_message.simps if_True if_False list.size simp_thms snd_conv length_Cons One_nat_def)
qed

subsection \<open>C5: the order of classification\<close>

text \<open>
  C5: the \<open>catch\<close> block tests the message for the entity-not-found text first, then
  for \<open>POSE_DETECTION_FAILED\<close>, then for \<open>MULTIPLE_PEOPLE_DETECTED\<close>; the first text
  found decides the error shown and the loop is left, whatever later text the message also
  contains. A message with none of the three gives the transient error, whose text
  contains the decimal numeral of the attempt (the loop counter plus one), and the loop
  goes on.
\<close>

theorem C5_classification_priority:
  "(str_includes (err_message err) ''Requested entity was not found.'' \<longrightarrow>
      catch_block i err s =
        (s\<lparr>error := Some ''Your API key seems to be invalid. Please double-check the key in services/geminiService.ts.''\<rparr>,
         True)) \<and>
   (\<not> str_includes (err_message err) ''Requested entity was not found.'' \<and>
    str_includes (err_message err) ''POSE_DETECTION_FAILED'' \<longrightarrow>
      catch_block i err s =
        (s\<lparr>error := Some (''Pose not detected clearly '' @ em_dash @ '' try a clearer or single-person image.'')\<rparr>,
         True)) \<and>
   (\<not> str_includes (err_message err) ''Requested entity was not found.'' \<and>
    \<not> str_includes (err_message err) ''POSE_DETECTION_FAILED'' \<and>
    str_includes (err_message err) ''MULTIPLE_PEOPLE_DETECTED'' \<longrightarrow>
      catch_block i err s =
        (s\<lparr>error := Some (''Multiple people detected '' @ em_dash @ '' please crop to one person for best accuracy.'')\<rparr>,
         True)) \<and>
   (\<not> str_includes (err_message err) ''Requested entity was not found.'' \<and>
    \<not> str_includes (err_message err) ''POSE_DETECTION_FAILED'' \<and>
    \<not> str_includes (err_message err) ''MULTIPLE_PEOPLE_DETECTED'' \<longrightarrow>
      catch_block i err s =
        (s\<lparr>error := Some (''Failed to generate image (attempt '' @ show_nat (i + 1) @ ''). '' @ err_message err)\<rparr>,
         False) \<and>
      str_includes (''Failed to generate image (attempt '' @ show_nat (i + 1) @ ''). '' @ err_message err)
        (show_nat (i + 1)))"
proof (intro conjI impI)
  show "str_includes (''Failed to generate image (attempt '' @ show_nat (i + 1) @ ''). '' @ err_message err)
        (show_nat (i + 1))"
    by (rule str_includes_middle)
qed (simp_all add: catch_block_def Let_def)

text \<open>
  Witness for C5: a message with both the pose-detection and the entity-not-found text is
  classified as the latter; one with both the multiple-people and the pose-detection text
  as pose detection; a thrown value that is not an \<open>Error\<close>, in the third attempt, gives
  the transient message for attempt 3.
\<close>

theorem C5_classification_priority_witness:
  "catch_block 0 (Error ''POSE_DETECTION_FAILED: Requested entity was not found.'') ex_ready =
     (ex_ready\<lparr>error := Some ''Your API key seems to be invalid. Please double-check the key in services/geminiService.ts.''\<rparr>,
      True) \<and>
   catch_block 0 (Error ''MULTIPLE_PEOPLE_DETECTED, POSE_DETECTION_FAILED'') ex_ready =
     (ex_ready\<lparr>error := Some (''Pose not detected clearly '' @ em_dash @ '' try a clearer or single-person image.'')\<rparr>,
      True) \<and>
   catch_block 1 (Error ''MULTIPLE_PEOPLE_DETECTED'') ex_ready =
     (ex_ready\<lparr>error := Some (''Multiple people detected '' @ em_dash @ '' please crop to one person for best accuracy.'')\<rparr>,
      True) \<and>
   catch_block 2 NonError ex_ready =
     (ex_ready\<lparr>error := Some ''Failed to generate image (attempt 3). An unknown error occurred.''\<rparr>,
      False) \<and>
   str_includes ''Failed to generate image (attempt 3). An unknown error occurred.'' ''3''"
proof -
  have n3: "show_nat (2 + 1) = ''3''"
    by code_simp
  have h1: "str_includes (err_message (Error ''POSE_DETECTION_FAILED: Requested entity was not found.''))
      ''Requested entity was not found.''"
    by simp
  have h2: "\<not> str_includes (err_message (Error ''MULTIPLE_PEOPLE_DETECTED, POSE_DETECTION_FAILED''))
        ''Requested entity was not found.'' \<and>
      str_includes (err_message (Error ''MULTIPLE_PEOPLE_DETECTED, POSE_DETECTION_FAILED''))
        ''POSE_DETECTION_FAILED''"
    by simp
  have h3: "\<not> str_includes (err_message (Error ''MULTIPLE_PEOPLE_DETECTED'')) ''Requested entity was not found.'' \<and>
      \<not> str_includes (err_message (Error ''MULTIPLE_PEOPLE_DETECTED'')) ''POSE_DETECTION_FAILED'' \<and>
      str_includes (err_message (Error ''MULTIPLE_PEOPLE_DETECTED'')) ''MULTIPLE_PEOPLE_DETECTED''"
    by simp
  have h4: "\<not> str_includes (err_message NonError) ''Requested entity was not found.'' \<and>
      \<not> str_includes (err_message NonError) ''POSE_DETECTION_FAILED'' \<and>
      \<not> str_includes (err_message NonError) ''MULTIPLE_PEOPLE_DETECTED''"
    by simp
  from C5_classification_priority [of "Error ''POSE_DETECTION_FAILED: Requested entity was not found.''" 0 ex_ready] h1
  have c1: "catch_block 0 (Error ''POSE_DETECTION_FAILED: Requested entity was not found.'') ex_ready =
     (ex_ready\<lparr>error := Some ''Your API key seems to be invalid. Please double-check the key in services/geminiService.ts.''\<rparr>,
      True)"
    by blast
  from C5_classification_priority [of "Error ''MULTIPLE_PEOPLE_DETECTED, POSE_DETECTION_FAILED''" 0 ex_ready] h2
  have c2: "catch_block 0 (Error ''MULTIPLE_PEOPLE_DETECTED, POSE_DETECTION_FAILED'') ex_ready =
     (ex_ready\<lparr>error := Some (''Pose not detected clearly '' @ em_dash @ '' try a clearer or single-person image.'')\<rparr>,
      True)"
    by blast
  from C5_classification_priority [of "Error ''MULTIPLE_PEOPLE_DETECTED''" 1 ex_ready] h3
  have c3: "catch_block 1 (Error ''MULTIPLE_PEOPLE_DETECTED'') ex_ready =
     (ex_ready\<lparr>error := Some (''Multiple people detected '' @ em_dash @ '' please crop to one person for best accuracy.'')\<rparr>,
      True)"
    by blast
  from C5_classification_priority [of NonError 2 ex_ready] h4
  have c4: "catch_block 2 NonError ex_ready =
        (ex_ready\<lparr>error := Some (''Failed to generate image (attempt '' @ show_nat (2 + 1) @ ''). '' @ err_message NonError)\<rparr>,
         False) \<and>
      str_includes (''Failed to generate image (attempt '' @ show_nat (2 + 1) @ ''). '' @ err_message NonError)
        (show_nat (2 + 1))"
    by blast
  from c4 have c4': "catch_block 2 NonError ex_ready =
     (ex_ready\<lparr>error := Some ''Failed to generate image (attempt 3). An unknown error occurred.''\<rparr>,
      False) \<and>
     str_includes ''Failed to generate image (attempt 3). An unknown error occurred.'' ''3''"
    by (simp only: n3 err_message.simps append.simps)
  from c1 c2 c3 c4' show ?thesis by (intro conjI) blast+
qed

subsection \<open>C6: the guard of generation\<close>

text \<open>
  C6, as stated, fails for a description of white space only. In \<open>ex_blank_description\<close>
  the identity is present and the description is two spaces; \<open>handleGenerate\<close> calls
  \<open>generatePose\<close>, stores the image and clears the error.
\<close>

theorem C6_whitespace_description_generates:
  "baseImage ex_blank_description = Some ex_base \<and>
   poseDescription ex_blank_description = ''  '' \<and>
   trim (poseDescription ex_blank_description) = [] \<and>
   snd (handleGenerate caps_ok ex_blank_description) =
     [(ex_base, generate_options ex_blank_description None)] \<and>
   generatedImage (fst (handleGenerate caps_ok ex_blank_description)) =
     Some ''data:image/png;base64,iVBORw0KGgo='' \<and>
   error (fst (handleGenerate caps_ok ex_blank_description)) = None \<and>
   fst (handleGenerate caps_ok ex_blank_description) \<noteq> ex_blank_description"
proof -
  let ?s = ex_blank_description
  let ?start = "?s\<lparr>isLoading := True, error := None, generatedImage := None\<rparr>"
  have b: "baseImage ?s = Some ex_base"
    by (simp add: ex_blank_description_def poseDescription_onChange_def ex_ready_def)
  have d: "poseDescription ?s = ''  ''"
    by (simp add: ex_blank_description_def poseDescription_onChange_def)
  have e: "error ?s = Some ''Failed to generate image (attempt 3). timeout''"
    by (simp add: ex_blank_description_def poseDescription_onChange_def ex_ready_def)
  have d': "poseDescription ?s \<noteq> []" by (simp add: d)
  have t: "trim (poseDescription ?s) = []"
    by (simp add: d trim_def is_js_space_def)
  have p: "poseImagePayload caps_ok ?s 0 = Inr None"
    by (simp add: poseImagePayload_def ex_blank_description_def poseDescription_onChange_def
        ex_ready_def)
  have g: "generatePose caps_ok 0 ex_base (generate_options ?s None) = Inr ''iVBORw0KGgo=''"
    by (simp add: caps_ok_def)
  have loop: "attempt_loop caps_ok ?s ex_base 0 False ?start [] =
      (?start\<lparr>generatedImage := Some (''data:image/png;base64,'' @ ''iVBORw0KGgo='')\<rparr>,
       [] @ [(ex_base, generate_options ?s None)])"
    using p g by (intro attempt_loop_success) simp_all
  have run: "handleGenerate caps_ok ?s =
      (?start\<lparr>generatedImage := Some (''data:image/png;base64,'' @ ''iVBORw0KGgo='')\<rparr>
          \<lparr>isLoading := False\<rparr>,
       [] @ [(ex_base, generate_options ?s None)])"
    using handleGenerate_run [OF b d', of caps_ok] by (simp only: loop fst_conv snd_conv)
  have err: "error (fst (handleGenerate caps_ok ?s)) = None"
    by (simp add: run)
  then have "fst (handleGenerate caps_ok ?s) \<noteq> ?s"
    using e by (metis option.distinct(1))
  with b d t err show ?thesis by (simp add: run)
qed

text \<open>
  C6 as amended: when the identity is absent or the pose description is the empty string,
  \<open>handleGenerate\<close> calls nothing and changes nothing.
\<close>

theorem C6_generate_guard:
  "baseImage s = None \<or> poseDescription s = [] \<Longrightarrow> handleGenerate E s = (s, [])"
  by (auto simp: handleGenerate_def split: option.splits)

text \<open>
  Witness for C6 as amended: the initial state has no identity; \<open>ex_ready\<close> with its
  description emptied has an empty description.
\<close>

theorem C6_generate_guard_witness:
  "baseImage initial_state = None \<and>
   handleGenerate caps_ok initial_state = (initial_state, []) \<and>
   poseDescription (poseDescription_onChange [] ex_ready) = [] \<and>
   handleGenerate caps_ok (poseDescription_onChange [] ex_ready) =
     (poseDescription_onChange [] ex_ready, [])"
proof -
  have n: "baseImage initial_state = None"
    by (simp add: initial_state_def)
  have d: "poseDescription (poseDescription_onChange [] ex_ready) = []"
    by (simp add: poseDescription_onChange_def)
  from n have n': "baseImage initial_state = None \<or> poseDescription initial_state = []" ..
  from d have d': "baseImage (poseDescription_onChange [] ex_ready) = None \<or>
      poseDescription (poseDescription_onChange [] ex_ready) = []" ..
  show ?thesis
    using C6_generate_guard [OF n', of caps_ok] C6_generate_guard [OF d', of caps_ok] n d
    by simp
qed

subsection \<open>C7: a blank text prompt\<close>

text \<open>
  C7: in text mode, when every character of the debounced prompt is white space (the empty
  prompt included), the effect leaves no operation in flight, so no Describe call is
  made, hides the editor and sets the pose description to the empty string.
\<close>

theorem C7_blank_text_not_submitted:
  assumes "poseSourceMode s = Some TextMode"
    and "\<forall>c\<in>set (debouncedPrompt s). is_js_space c"
  shows "useEffect_pose s = (s\<lparr>showDescriptionEditor := False, poseDescription := []\<rparr>, None) \<and>
     snd (useEffect_pose s) = None \<and>
     poseDescription (fst (useEffect_pose s)) = []"
proof -
  have "trim (debouncedPrompt s) = []"
    using assms(2) by (simp only: trim_blank_iff)
  then show ?thesis
    using assms(1) by (simp add: useEffect_pose_def getPoseDescription_def)
qed

text \<open>Witness for C7: the prompt of a space, a tab and a line feed.\<close>

theorem C7_blank_text_not_submitted_witness:
  "poseSourceMode ex_blank_prompt = Some TextMode \<and>
   debouncedPrompt ex_blank_prompt = [CHR 0x20, CHR 0x09, CHR 0x0A] \<and>
   list_all is_js_space (debouncedPrompt ex_blank_prompt) \<and>
   snd (useEffect_pose ex_blank_prompt) = None \<and>
   poseDescription (fst (useEffect_pose ex_blank_prompt)) = []"
proof -
  have m: "poseSourceMode ex_blank_prompt = Some TextMode"
    and p: "debouncedPrompt ex_blank_prompt = [CHR 0x20, CHR 0x09, CHR 0x0A]"
    by (simp_all add: ex_blank_prompt_def useDebounce_settle_def prompt_onChange_def
        ex_text_chosen_def handlePoseSourceChange_def)
  have w: "\<forall>c\<in>set (debouncedPrompt ex_blank_prompt). is_js_space c"
    by (simp add: p is_js_space_def)
  then have w': "list_all is_js_space (debouncedPrompt ex_blank_prompt)"
    by (simp only: list_all_iff)
  show ?thesis
    using C7_blank_text_not_submitted [OF m w] m p w' by simp
qed

subsection \<open>C8: trying a new pose\<close>

text \<open>
  C8: \<open>handleTryNewPose\<close> is idempotent. After it no pose-source mode is selected, the
  pose image, the prompt, the pose description, the result and the error are absent, the
  identity is what it was, and the effect that follows changes nothing and submits nothing.
\<close>

theorem C8_try_new_pose_idempotent:
  "handleTryNewPose (handleTryNewPose s) = handleTryNewPose s \<and>
   poseSourceMode (handleTryNewPose s) = None \<and>
   poseImage (handleTryNewPose s) = None \<and>
   prompt (handleTryNewPose s) = [] \<and>
   poseDescription (handleTryNewPose s) = [] \<and>
   generatedImage (handleTryNewPose s) = None \<and>
   error (handleTryNewPose s) = None \<and>
   showDescriptionEditor (handleTryNewPose s) = False \<and>
   baseImage (handleTryNewPose s) = baseImage s \<and>
   useEffect_pose (handleTryNewPose s) = (handleTryNewPose s, None)"
  by (simp add: handleTryNewPose_def useEffect_pose_def)

subsection \<open>C9: uploading a pose image\<close>

text \<open>
  C9: \<open>handlePoseImageUpload\<close> stores the uploaded image with its preview handle and
  sets the text prompt to the empty string.
\<close>

theorem C9_upload_clears_prompt:
  "prompt (handlePoseImageUpload url f s) = [] \<and>
   poseImage (handlePoseImageUpload url f s) = Some \<lparr>imgFile = f, preview = url\<rparr>"
  by (simp add: handlePoseImageUpload_def)

subsection \<open>C10: the inputs of the describe operation\<close>

text \<open>
  C10, as stated, fails in its second half: with no image and the empty string as text,
  which is not \<open>null\<close>, the operation raises its validation error; and with an image and a
  text both given it raises when the API key is not set.
\<close>

theorem C10_empty_text_raises:
  "generatePoseDescription ex_gemini None (Some []) =
     (Inl (Error ''Either an image or text must be provided for description.''), []) \<and>
   generatePoseDescription (ex_gemini\<lparr>API_KEY := None\<rparr>) (Some ex_base) (Some ''wave'') =
     (Inl (Error ''API_KEY environment variable not set.''), [])"
  by (simp add: generatePoseDescription_def getAiClient_def describe_parts_def ex_gemini_def)

text \<open>
  C10 as amended: given an image, the operation behaves as if no text were given, and the
  request it submits holds the image and the fixed instruction only. When the API key is
  set, it raises the error that an image or text must be provided, before any request,
  exactly when the image is \<open>null\<close> and the text is \<open>null\<close> or the empty string.
\<close>

theorem C10_describe_inputs:
  "generatePoseDescription G (Some img) text' = generatePoseDescription G (Some img) None \<and>
   describe_parts (Some img) text' =
     Inr [InlineData (mimeType img) (data img), TextPart describe_image_prompt] \<and>
   (getAiClient G = Inr () \<longrightarrow>
      snd (generatePoseDescription G (Some img) text') =
        [(''gemini-2.5-flash'', [InlineData (mimeType img) (data img), TextPart describe_image_prompt])]) \<and>
   (getAiClient G = Inr () \<longrightarrow>
      (generatePoseDescription G image' text' =
         (Inl (Error ''Either an image or text must be provided for description.''), [])
       \<longleftrightarrow> image' = None \<and> (text' = None \<or> text' = Some [])))"
proof -
  have dp: "describe_parts (Some img) t =
      Inr [InlineData (mimeType img) (data img), TextPart describe_image_prompt]" for t
    by (simp add: describe_parts_def)
  have same: "generatePoseDescription G (Some img) text' = generatePoseDescription G (Some img) None"
    unfolding generatePoseDescription_def dp ..
  have calls: "snd (generatePoseDescription G (Some img) text') =
      [(''gemini-2.5-flash'', [InlineData (mimeType img) (data img), TextPart describe_image_prompt])]"
    if "getAiClient G = Inr ()"
    unfolding generatePoseDescription_def dp using that
    by (simp split: sum.splits option.splits)
  have raises: "generatePoseDescription G image' text' =
         (Inl (Error ''Either an image or text must be provided for description.''), [])
       \<longleftrightarrow> image' = None \<and> (text' = None \<or> text' = Some [])"
    if ok: "getAiClient G = Inr ()"
  proof (cases "describe_parts image' text'")
    case (Inl e)
    then have "image' = None \<and> (text' = None \<or> text' = Some []) \<and>
        e = Error ''Either an image or text must be provided for description.''"
      by (auto simp add: describe_parts_def split: option.splits if_splits)
    then show ?thesis
      using ok Inl by (simp add: generatePoseDescription_def)
  next
    case (Inr parts)
    then have "\<not> (image' = None \<and> (text' = None \<or> text' = Some []))"
      by (auto simp add: describe_parts_def split: option.splits if_splits)
    moreover have "snd (generatePoseDescription G image' text') \<noteq> []"
      using ok Inr by (simp add: generatePoseDescription_def split: sum.splits option.splits)
    then have "generatePoseDescription G image' text' \<noteq>
        (Inl (Error ''Either an image or text must be provided for description.''), [])"
      by (metis snd_conv)
    ultimately show ?thesis by simp
  qed
  from dp same calls raises show ?thesis by blast
qed

text \<open>
  Witness for C10 as amended: the configured service \<open>ex_gemini\<close>, with the image
  \<open>ex_base\<close> and the text \<open>wave\<close>, with neither, and with the text alone.
\<close>

theorem C10_describe_inputs_witness:
  "getAiClient ex_gemini = Inr () \<and>
   generatePoseDescription ex_gemini (Some ex_base) (Some ''wave'') =
     generatePoseDescription ex_gemini (Some ex_base) None \<and>
   snd (generatePoseDescription ex_gemini (Some ex_base) (Some ''wave'')) =
     [(''gemini-2.5-flash'', [InlineData ''image/png'' ''UkVY'', TextPart describe_image_prompt])] \<and>
   generatePoseDescription ex_gemini None None =
     (Inl (Error ''Either an image or text must be provided for description.''), []) \<and>
   generatePoseDescription ex_gemini None (Some ''wave'') \<noteq>
     (Inl (Error ''Either an image or text must be provided for description.''), [])"
proof -
  have k: "getAiClient ex_gemini = Inr ()"
    by (simp add: getAiClient_def ex_gemini_def)
  have i: "mimeType ex_base = ''image/png''" "data ex_base = ''UkVY''"
    by (simp_all add: ex_base_def)
  show ?thesis
    using C10_describe_inputs [where G = ex_gemini and img = ex_base and text' = None
          and image' = None]
      C10_describe_inputs [where G = ex_gemini and img = ex_base and text' = "Some ''wave''"
          and image' = None] k i
    by simp
qed

end
